theory Spec2Isabelle
  imports Complex_Main "HOL-Library.Word"
begin

section \<open>Errors and panics\<close>

text \<open>
  A Go \<open>error\<close> value is modelled by its message (\<open>errors.New msg\<close>); the \<open>nil\<close> error
  is \<open>None\<close> of \<open>error option\<close>. A run-time panic is a value of its own: the only panic
  the modelled functions can raise is the dereference of a \<open>nil\<close> pointer.
\<close>

datatype error = Error string

datatype panic = NilPointerDereference

section \<open>Constants of \<open>cmd/config.go\<close>\<close>

text \<open>
  A \<open>float64\<close> is modelled by the number it denotes, together with the values of
  IEEE 754 that denote no real number. \<open>Finite 0\<close> is the positive zero. The only
  operation the modelled code performs on a \<open>float64\<close> is the comparison \<open>x == 0\<close>,
  which holds of both zeros and of nothing else (in particular not of \<open>NaN\<close>).
\<close>

datatype float64 = Finite real | NegZero | PosInf | NegInf | NaN

definition f64_eq_zero :: "float64 \<Rightarrow> bool" where
  "f64_eq_zero x = (x = Finite 0 \<or> x = NegZero)"

type_synonym int64 = "64 word"

definition defaultSlashingPeriodUptimeWarningThreshold :: float64 where
  "defaultSlashingPeriodUptimeWarningThreshold = Finite 99.80"

definition defaultSlashingPeriodUptimeErrorThreshold :: float64 where
  "defaultSlashingPeriodUptimeErrorThreshold = Finite 98"

definition defaultRecentBlocksToCheck :: int64 where
  "defaultRecentBlocksToCheck = 20"

definition defaultNotifyEvery :: int64 where
  "defaultNotifyEvery = 20"

definition defaultRecentMissedBlocksNotifyThreshold :: int64 where
  "defaultRecentMissedBlocksNotifyThreshold = 10"




section \<open>\<open>AlertLevel\<close>\<close>

text \<open>\<open>type AlertLevel int8\<close>, its four constants numbered by \<open>iota\<close>.\<close>

type_synonym AlertLevel = "8 word"

definition alertLevelNone :: AlertLevel where
  "alertLevelNone = 0"

definition alertLevelWarning :: AlertLevel where
  "alertLevelWarning = 1"

definition alertLevelHigh :: AlertLevel where
  "alertLevelHigh = 2"

definition alertLevelCritical :: AlertLevel where
  "alertLevelCritical = 3"

section \<open>\<open>AlertType\<close> and its YAML decoder\<close>

text \<open>\<open>type AlertType string\<close>: any string is a value of the type.\<close>

type_synonym AlertType = string

definition alertTypeJailed :: AlertType where
  "alertTypeJailed = ''alertTypeJailed''"

definition alertTypeTombstoned :: AlertType where
  "alertTypeTombstoned = ''alertTypeTombstoned''"

definition alertTypeOutOfSync :: AlertType where
  "alertTypeOutOfSync = ''alertTypeOutOfSync''"

definition alertTypeBlockFetch :: AlertType where
  "alertTypeBlockFetch = ''alertTypeBlockFetch''"

definition alertTypeMissedRecentBlocks :: AlertType where
  "alertTypeMissedRecentBlocks = ''alertTypeMissedRecentBlocks''"

definition alertTypeGenericRPC :: AlertType where
  "alertTypeGenericRPC = ''alertTypeGenericRPC''"

definition alertTypeHalt :: AlertType where
  "alertTypeHalt = ''alertTypeHalt''"

definition alertTypeSlashingSLA :: AlertType where
  "alertTypeSlashingSLA = ''alertTypeSlashingSLA''"

definition alertTypes :: "AlertType list" where
  "alertTypes =
     [alertTypeJailed, alertTypeTombstoned, alertTypeOutOfSync, alertTypeBlockFetch,
      alertTypeMissedRecentBlocks, alertTypeGenericRPC, alertTypeHalt, alertTypeSlashingSLA]"

text \<open>
  The body of the loop \<open>for _, s := range alertTypes\<close>: the pair is the local \<open>found\<close>
  and the receiver \<open>*at\<close> (named \<open>recv\<close> here). The loop has no \<open>break\<close>: it visits every entry.
\<close>

fun scanAlertTypes :: "AlertType list \<Rightarrow> string \<Rightarrow> bool \<times> AlertType \<Rightarrow> bool \<times> AlertType" where
  "scanAlertTypes [] alertType (found, recv) = (found, recv)"
| "scanAlertTypes (s # ss) alertType (found, recv) =
     (let a = alertType in
      if s = a then scanAlertTypes ss alertType (True, a)
      else scanAlertTypes ss alertType (found, recv))"

text \<open>
  \<open>func (at *AlertType) UnmarshalYAML(unmarshal func(interface{}) error) error\<close>.
  The callback receives the address of the local \<open>alertType\<close>, which holds the empty
  string: it is modelled as a function from that value to the value it leaves there and
  the error it returns. The result is the returned error and the receiver \<open>*at\<close> after
  the call.
\<close>

definition UnmarshalYAML ::
  "(string \<Rightarrow> string \<times> error option) \<Rightarrow> AlertType \<Rightarrow> error option \<times> AlertType" where
  "UnmarshalYAML unmarshal recv =
     (case unmarshal '''' of
        (alertType, Some err) \<Rightarrow> (Some err, recv)
      | (alertType, None) \<Rightarrow>
          (case scanAlertTypes alertTypes alertType (False, recv) of
             (found, recv') \<Rightarrow>
               if \<not> found then (Some (Error ''Invalid AlertType''), recv')
               else (None, recv')))"

text \<open>A callback that decodes the YAML scalar \<open>s\<close> without error.\<close>

definition decodes :: "string \<Rightarrow> string \<Rightarrow> string \<times> error option" where
  "decodes s = (\<lambda>_. (s, None))"

text \<open>A callback that fails with the error \<open>e\<close> and leaves the local untouched.\<close>

definition failing :: "error \<Rightarrow> string \<Rightarrow> string \<times> error option" where
  "failing e = (\<lambda>s. (s, Some e))"

section \<open>Configuration records\<close>

text \<open>
  A Go pointer that is only compared with \<open>nil\<close>, read or replaced becomes an
  \<open>option\<close> (\<open>None\<close> is \<open>nil\<close>). The values behind the \<open>*int64\<close>, \<open>*int\<close> and
  \<open>*string\<close> fields are taken to be cells of their own, as the YAML loader allocates
  them; no modelled function writes through such a pointer. Go's \<open>int\<close> is 64 bits wide
  on the platforms the program is built for.
\<close>

record DiscordWebhookConfig =
  ID :: string
  Token :: string

record DiscordChannelConfig =
  Webhook :: DiscordWebhookConfig
  AlertUserIDs :: "string list"
  Username :: string

record NotificationsConfig =
  Service :: string
  Discord :: "DiscordChannelConfig option"

record AlertConfig =
  IgnoreAlerts :: "AlertType option list"

record Sentry =
  Name :: string
  GRPC :: string

record ValidatorMonitor =
  Name :: string
  RPC :: string
  FullNode :: bool
  Address :: string
  ChainID :: string
  DiscordStatusMessageID :: "string option"
  RPCRetries :: "int64 option"
  MissedBlocksThreshold :: "int64 option"
  SentryGRPCErrorThreshold :: "int64 option"
  SentryOutOfSyncBlocksThreshold :: "int64 option"
  Sentries :: "Sentry list option"
  SlashingPeriodUptimeWarningThreshold :: float64
  SlashingPeriodUptimeErrorThreshold :: float64
  RecentBlocksToCheck :: int64
  NotifyEvery :: int64
  RecentMissedBlocksNotifyThreshold :: int64
  MissedBlocksGreenTo :: "int64 option"
  MissedBlocksYellowFrom :: "int64 option"
  MissedBlocksYellowTo :: "int64 option"
  MissedBlocksRedFrom :: "int64 option"

text \<open>
  \<open>Validators []*ValidatorMonitor\<close>: the defaulting pass writes through these
  pointers, and two entries of the slice may hold the same pointer. The validators
  therefore live in a store, and the slice holds addresses (\<open>None\<close> is \<open>nil\<close>). A
  pointer of Go that is not \<open>nil\<close> always points to a value, so the store is total.
\<close>

type_synonym addr = nat

type_synonym heap = "addr \<Rightarrow> ValidatorMonitor"

record HalfLifeConfig =
  AlertConfig :: AlertConfig
  Notifications :: "NotificationsConfig option"
  Validators :: "addr option list"

section \<open>\<open>AlertActive\<close>\<close>

text \<open>
  The loop \<open>for _, a := range at.IgnoreAlerts\<close> dereferences every entry it reaches
  (\<open>*a == alert\<close>), which panics on a \<open>nil\<close> entry, and returns at the first match.
\<close>

fun AlertActive_loop :: "AlertType option list \<Rightarrow> AlertType \<Rightarrow> panic + bool" where
  "AlertActive_loop [] alert = Inr True"
| "AlertActive_loop (None # as) alert = Inl NilPointerDereference"
| "AlertActive_loop (Some a # as) alert =
     (if a = alert then Inr False else AlertActive_loop as alert)"

definition AlertActive :: "AlertConfig \<Rightarrow> AlertType \<Rightarrow> panic + bool" where
  "AlertActive cfg alert = AlertActive_loop (IgnoreAlerts cfg) alert"

section \<open>\<open>getUnsetDefaults\<close>\<close>

text \<open>
  One iteration of \<open>for idx := range c.Validators\<close> on the validator that
  \<open>c.Validators[idx]\<close> points to: nine assignments in the order of the source, each
  under its own test. \<open>&defaultVal\<close> is the address of a fresh variable.
\<close>

definition validatorUnsetDefaults :: "ValidatorMonitor \<Rightarrow> ValidatorMonitor" where
  "validatorUnsetDefaults v0 =
     (let v1 = (if f64_eq_zero (SlashingPeriodUptimeWarningThreshold v0)
                then v0\<lparr>SlashingPeriodUptimeWarningThreshold :=
                          defaultSlashingPeriodUptimeWarningThreshold\<rparr>
                else v0);
          v2 = (if f64_eq_zero (SlashingPeriodUptimeErrorThreshold v1)
                then v1\<lparr>SlashingPeriodUptimeErrorThreshold :=
                          defaultSlashingPeriodUptimeErrorThreshold\<rparr>
                else v1);
          v3 = (if RecentBlocksToCheck v2 = 0
                then v2\<lparr>RecentBlocksToCheck := defaultRecentBlocksToCheck\<rparr> else v2);
          v4 = (if NotifyEvery v3 = 0
                then v3\<lparr>NotifyEvery := defaultNotifyEvery\<rparr> else v3);
          v5 = (if RecentMissedBlocksNotifyThreshold v4 = 0
                then v4\<lparr>RecentMissedBlocksNotifyThreshold :=
                          defaultRecentMissedBlocksNotifyThreshold\<rparr>
                else v4);
          v6 = (if MissedBlocksGreenTo v5 = None
                then v5\<lparr>MissedBlocksGreenTo := Some 49\<rparr> else v5);
          v7 = (if MissedBlocksYellowFrom v6 = None
                then v6\<lparr>MissedBlocksYellowFrom := Some 50\<rparr> else v6);
          v8 = (if MissedBlocksYellowTo v7 = None
                then v7\<lparr>MissedBlocksYellowTo := Some 99\<rparr> else v7);
          v9 = (if MissedBlocksRedFrom v8 = None
                then v8\<lparr>MissedBlocksRedFrom := Some 100\<rparr> else v8)
      in v9)"

text \<open>
  The loop over the slice. Every statement of the body starts by dereferencing
  \<open>c.Validators[idx]\<close>, so a \<open>nil\<close> entry panics at the first test, before anything is
  written for that entry; what was written for the entries before it stays written.
\<close>

fun getUnsetDefaults_loop :: "addr option list \<Rightarrow> heap \<Rightarrow> panic option \<times> heap" where
  "getUnsetDefaults_loop [] h = (None, h)"
| "getUnsetDefaults_loop (None # ps) h = (Some NilPointerDereference, h)"
| "getUnsetDefaults_loop (Some p # ps) h =
     getUnsetDefaults_loop ps (h(p := validatorUnsetDefaults (h p)))"

text \<open>
  \<open>func (c *HalfLifeConfig) getUnsetDefaults()\<close>. The first statement prints
  \<open>*c.Notifications\<close>: the dereference is modelled, the text on standard output is not.
  The function assigns to no field of \<open>*c\<close> itself, so the configuration is read only
  and the result is the outcome (\<open>None\<close> for a normal return) and the store.
\<close>

definition getUnsetDefaults :: "HalfLifeConfig \<Rightarrow> heap \<Rightarrow> panic option \<times> heap" where
  "getUnsetDefaults c h =
     (case Notifications c of
        None \<Rightarrow> (Some NilPointerDereference, h)
      | Some n \<Rightarrow> getUnsetDefaults_loop (Validators c) h)"

section \<open>\<open>saveConfig\<close>\<close>

text \<open>
  \<open>yaml.Marshal\<close> and \<open>os.WriteFile\<close> belong to libraries: they are parameters of the
  model. \<open>Marshal\<close> returns its two results as Go does, the bytes and the error.
  \<open>WriteFile\<close> takes the file name, the bytes and the file system, and returns the file
  system it leaves and its error (the permission argument \<open>0600\<close> is left out). A file
  system maps a file name to the content of the file. The effects of a call are
  recorded in the order in which they happen: the lock of the mutex, the two
  \<open>fmt.Printf\<close> calls when they run, the call of \<open>os.WriteFile\<close> and, last, the
  deferred unlock.
\<close>

type_synonym filesystem = "string \<rightharpoonup> string"

datatype event =
  MutexLocked
  | MarshalErrorLogged error
  | WriteFileCalled string string
  | SaveErrorLogged error
  | MutexUnlocked

definition saveConfig ::
  "('c \<Rightarrow> string \<times> error option) \<Rightarrow>
   (string \<Rightarrow> string \<Rightarrow> filesystem \<Rightarrow> filesystem \<times> error option) \<Rightarrow>
   string \<Rightarrow> 'c \<Rightarrow> filesystem \<Rightarrow> filesystem \<times> event list" where
  "saveConfig Marshal WriteFile configFile config fs =
     (case Marshal config of
        (yamlBytes, err) \<Rightarrow>
          (let t1 = [MutexLocked] @
                    (case err of Some e \<Rightarrow> [MarshalErrorLogged e] | None \<Rightarrow> [])
           in
           case WriteFile configFile yamlBytes fs of
             (fs', err') \<Rightarrow>
               (fs',
                t1 @ [WriteFileCalled configFile yamlBytes] @
                (case err' of Some e \<Rightarrow> [SaveErrorLogged e] | None \<Rightarrow> []) @
                [MutexUnlocked])))"

text \<open>\<open>os.WriteFile\<close> when it succeeds: the file holds the bytes and nothing else.\<close>

definition WriteFile_succeeds ::
  "string \<Rightarrow> string \<Rightarrow> filesystem \<Rightarrow> filesystem \<times> error option" where
  "WriteFile_succeeds name bytes fs = (fs(name \<mapsto> bytes), None)"

text \<open>
  \<open>os.WriteFile\<close> when it fails part of the way: it truncates the file before it
  writes, so a failure after \<open>k\<close> bytes leaves the first \<open>k\<close> bytes in the file.
\<close>

definition WriteFile_fails_after ::
  "nat \<Rightarrow> error \<Rightarrow> string \<Rightarrow> string \<Rightarrow> filesystem \<Rightarrow> filesystem \<times> error option" where
  "WriteFile_fails_after k e name bytes fs = (fs(name \<mapsto> take k bytes), Some e)"

section \<open>Vocabulary of the properties\<close>

text \<open>
  The defaulting rule in the words of the specification, to be compared with
  \<open>validatorUnsetDefaults\<close>: each of the five numeric thresholds takes its documented
  default where it is unset (zero), each of the four band boundaries takes its default
  where it is \<open>nil\<close> (a pointer to a value, zero included, is kept), and no other field
  changes.
\<close>

definition filledWhereUnset :: "ValidatorMonitor \<Rightarrow> ValidatorMonitor" where
  "filledWhereUnset v =
     v\<lparr>SlashingPeriodUptimeWarningThreshold :=
         (if f64_eq_zero (SlashingPeriodUptimeWarningThreshold v) then Finite 99.80
          else SlashingPeriodUptimeWarningThreshold v),
       SlashingPeriodUptimeErrorThreshold :=
         (if f64_eq_zero (SlashingPeriodUptimeErrorThreshold v) then Finite 98
          else SlashingPeriodUptimeErrorThreshold v),
       RecentBlocksToCheck :=
         (if RecentBlocksToCheck v = 0 then 20 else RecentBlocksToCheck v),
       NotifyEvery := (if NotifyEvery v = 0 then 20 else NotifyEvery v),
       RecentMissedBlocksNotifyThreshold :=
         (if RecentMissedBlocksNotifyThreshold v = 0 then 10
          else RecentMissedBlocksNotifyThreshold v),
       MissedBlocksGreenTo :=
         (case MissedBlocksGreenTo v of None \<Rightarrow> Some 49 | Some x \<Rightarrow> Some x),
       MissedBlocksYellowFrom :=
         (case MissedBlocksYellowFrom v of None \<Rightarrow> Some 50 | Some x \<Rightarrow> Some x),
       MissedBlocksYellowTo :=
         (case MissedBlocksYellowTo v of None \<Rightarrow> Some 99 | Some x \<Rightarrow> Some x),
       MissedBlocksRedFrom :=
         (case MissedBlocksRedFrom v of None \<Rightarrow> Some 100 | Some x \<Rightarrow> Some x)\<rparr>"

text \<open>The nine fields that the defaulting pass may fill, and when all of them are set.\<close>

definition thresholds ::
  "ValidatorMonitor \<Rightarrow>
   (float64 \<times> float64 \<times> int64 \<times> int64 \<times> int64) \<times>
   (int64 option \<times> int64 option \<times> int64 option \<times> int64 option)" where
  "thresholds v =
     ((SlashingPeriodUptimeWarningThreshold v, SlashingPeriodUptimeErrorThreshold v,
       RecentBlocksToCheck v, NotifyEvery v, RecentMissedBlocksNotifyThreshold v),
      (MissedBlocksGreenTo v, MissedBlocksYellowFrom v, MissedBlocksYellowTo v,
       MissedBlocksRedFrom v))"

definition thresholdsSet :: "ValidatorMonitor \<Rightarrow> bool" where
  "thresholdsSet v =
     (\<not> f64_eq_zero (SlashingPeriodUptimeWarningThreshold v) \<and>
      \<not> f64_eq_zero (SlashingPeriodUptimeErrorThreshold v) \<and>
      RecentBlocksToCheck v \<noteq> 0 \<and> NotifyEvery v \<noteq> 0 \<and>
      RecentMissedBlocksNotifyThreshold v \<noteq> 0 \<and>
      MissedBlocksGreenTo v \<noteq> None \<and> MissedBlocksYellowFrom v \<noteq> None \<and>
      MissedBlocksYellowTo v \<noteq> None \<and> MissedBlocksRedFrom v \<noteq> None)"

text \<open>The effective thresholds of a configuration: those of its validators, in order.\<close>

definition effectiveThresholds ::
  "HalfLifeConfig \<Rightarrow> heap \<Rightarrow>
   ((float64 \<times> float64 \<times> int64 \<times> int64 \<times> int64) \<times>
    (int64 option \<times> int64 option \<times> int64 option \<times> int64 option)) option list" where
  "effectiveThresholds c h = map (map_option (\<lambda>p. thresholds (h p))) (Validators c)"

text \<open>
  Modelled from the spec: the band table of the alert-level derivation (section 4.3),
  whose code is not among the sources. green is \<open>[0, MissedBlocksGreenTo]\<close>, yellow is
  \<open>[MissedBlocksYellowFrom, MissedBlocksYellowTo]\<close>, red is
  \<open>[MissedBlocksRedFrom, window size]\<close>, the window size being \<open>RecentBlocksToCheck\<close>.
  The counts are \<open>int64\<close> values, compared as signed numbers.
\<close>

definition inGreenBand :: "ValidatorMonitor \<Rightarrow> int64 \<Rightarrow> bool" where
  "inGreenBand v n =
     (case MissedBlocksGreenTo v of
        None \<Rightarrow> False
      | Some g \<Rightarrow> 0 \<le> sint n \<and> sint n \<le> sint g)"

definition inYellowBand :: "ValidatorMonitor \<Rightarrow> int64 \<Rightarrow> bool" where
  "inYellowBand v n =
     (case (MissedBlocksYellowFrom v, MissedBlocksYellowTo v) of
        (Some yf, Some yt) \<Rightarrow> sint yf \<le> sint n \<and> sint n \<le> sint yt
      | _ \<Rightarrow> False)"

definition inRedBand :: "ValidatorMonitor \<Rightarrow> int64 \<Rightarrow> bool" where
  "inRedBand v n =
     (case MissedBlocksRedFrom v of
        None \<Rightarrow> False
      | Some r \<Rightarrow> sint r \<le> sint n \<and> sint n \<le> sint (RecentBlocksToCheck v))"

definition bandCount :: "ValidatorMonitor \<Rightarrow> int64 \<Rightarrow> nat" where
  "bandCount v n =
     (if inGreenBand v n then 1 else 0) + (if inYellowBand v n then 1 else 0) +
     (if inRedBand v n then 1 else 0)"

definition bandsMonotonic :: "ValidatorMonitor \<Rightarrow> bool" where
  "bandsMonotonic v =
     (case (MissedBlocksGreenTo v, MissedBlocksYellowFrom v, MissedBlocksYellowTo v,
            MissedBlocksRedFrom v) of
        (Some g, Some yf, Some yt, Some r) \<Rightarrow>
          sint g < sint yf \<and> sint yf \<le> sint yt \<and> sint yt < sint r
      | _ \<Rightarrow> False)"

section \<open>Sentry failure streaks\<close>








section \<open>Example values\<close>

definition unsetValidator :: ValidatorMonitor where
  "unsetValidator =
     \<lparr>Name = ''val'', RPC = ''http://localhost:26657'', FullNode = False,
      Address = ''A1'', ChainID = ''hub'', DiscordStatusMessageID = None,
      RPCRetries = None, MissedBlocksThreshold = None, SentryGRPCErrorThreshold = None,
      SentryOutOfSyncBlocksThreshold = None, Sentries = None,
      SlashingPeriodUptimeWarningThreshold = Finite 0,
      SlashingPeriodUptimeErrorThreshold = Finite 0,
      RecentBlocksToCheck = 0, NotifyEvery = 0, RecentMissedBlocksNotifyThreshold = 0,
      MissedBlocksGreenTo = None, MissedBlocksYellowFrom = None,
      MissedBlocksYellowTo = None, MissedBlocksRedFrom = None\<rparr>"

definition setValidator :: ValidatorMonitor where
  "setValidator =
     unsetValidator\<lparr>SlashingPeriodUptimeWarningThreshold := Finite 99,
                    SlashingPeriodUptimeErrorThreshold := Finite 95,
                    RecentBlocksToCheck := 30, NotifyEvery := 5,
                    RecentMissedBlocksNotifyThreshold := 3,
                    MissedBlocksGreenTo := Some 0, MissedBlocksYellowFrom := Some 1,
                    MissedBlocksYellowTo := Some 9, MissedBlocksRedFrom := Some 10\<rparr>"

definition discordNotifications :: NotificationsConfig where
  "discordNotifications = \<lparr>Service = ''discord'', Discord = None\<rparr>"

definition exampleConfig :: HalfLifeConfig where
  "exampleConfig =
     \<lparr>AlertConfig = \<lparr>IgnoreAlerts = [Some alertTypeHalt]\<rparr>,
      Notifications = Some discordNotifications,
      Validators = [Some 3, Some 4]\<rparr>"

definition exampleHeap :: heap where
  "exampleHeap = (\<lambda>_. setValidator)(3 := unsetValidator)"

text \<open>What the defaulting pass makes of \<open>unsetValidator\<close>.\<close>

definition defaultedValidator :: ValidatorMonitor where
  "defaultedValidator =
     unsetValidator\<lparr>SlashingPeriodUptimeWarningThreshold := Finite 99.80,
                    SlashingPeriodUptimeErrorThreshold := Finite 98,
                    RecentBlocksToCheck := 20, NotifyEvery := 20,
                    RecentMissedBlocksNotifyThreshold := 10,
                    MissedBlocksGreenTo := Some 49, MissedBlocksYellowFrom := Some 50,
                    MissedBlocksYellowTo := Some 99, MissedBlocksRedFrom := Some 100\<rparr>"

text \<open>
  A configuration read back from a file that was saved after defaulting: the validators
  are fresh values at other addresses.
\<close>

definition reloadedConfig :: HalfLifeConfig where
  "reloadedConfig = exampleConfig\<lparr>Validators := [Some 7, Some 8]\<rparr>"

definition reloadedHeap :: heap where
  "reloadedHeap = (\<lambda>_. setValidator)(7 := defaultedValidator)"

text \<open>A \<open>yaml.Marshal\<close> that fails: it returns no bytes and an error.\<close>

definition Marshal_fails :: "'c \<Rightarrow> string \<times> error option" where
  "Marshal_fails = (\<lambda>_. ('''', Some (Error ''yaml: cannot marshal'')))"

text \<open>A \<open>yaml.Marshal\<close> that succeeds with the given bytes.\<close>

definition Marshal_gives :: "string \<Rightarrow> 'c \<Rightarrow> string \<times> error option" where
  "Marshal_gives bytes = (\<lambda>_. (bytes, None))"

section \<open>The decoder on the closed set\<close>

lemma scanAlertTypes_eq:
  "scanAlertTypes ss a (found, recv) =
     (if a \<in> set ss then (True, a) else (found, recv))"
  by (induction ss arbitrary: found recv) auto

lemma UnmarshalYAML_decoded:
  "unmarshal '''' = (s, None) \<Longrightarrow>
   UnmarshalYAML unmarshal recv =
     (if s \<in> set alertTypes then (None, s) else (Some (Error ''Invalid AlertType''), recv))"
  by (simp add: UnmarshalYAML_def scanAlertTypes_eq)

lemma UnmarshalYAML_failed:
  "unmarshal '''' = (s, Some err) \<Longrightarrow> UnmarshalYAML unmarshal recv = (Some err, recv)"
  by (simp add: UnmarshalYAML_def)

lemma set_alertTypes:
  "set alertTypes =
     {alertTypeJailed, alertTypeTombstoned, alertTypeOutOfSync, alertTypeBlockFetch,
      alertTypeMissedRecentBlocks, alertTypeGenericRPC, alertTypeHalt, alertTypeSlashingSLA}"
  by (simp add: alertTypes_def)

text \<open>
  C2: \<open>UnmarshalYAML\<close> accepts exactly the eight declared values. When the callback
  decodes the string \<open>s\<close>, the call returns no error and leaves \<open>s\<close> in the receiver if
  \<open>s\<close> is one of the eight constants, and returns the error \<open>Invalid AlertType\<close> for
  every other string.
\<close>

theorem UnmarshalYAML_accepts_closed_set:
  assumes "unmarshal '''' = (s, None)"
  shows "UnmarshalYAML unmarshal recv =
     (if s \<in> {alertTypeJailed, alertTypeTombstoned, alertTypeOutOfSync, alertTypeBlockFetch,
               alertTypeMissedRecentBlocks, alertTypeGenericRPC, alertTypeHalt,
               alertTypeSlashingSLA}
      then (None, s) else (Some (Error ''Invalid AlertType''), recv))"
  using assms UnmarshalYAML_decoded [of unmarshal s recv] by (simp only: set_alertTypes)

theorem UnmarshalYAML_accepts_closed_set_witness:
  "decodes ''alertTypeHalt'' '''' = (''alertTypeHalt'', None) \<and>
   UnmarshalYAML (decodes ''alertTypeHalt'') alertTypeJailed = (None, alertTypeHalt) \<and>
   decodes ''alertTypeHalted'' '''' = (''alertTypeHalted'', None) \<and>
   UnmarshalYAML (decodes ''alertTypeHalted'') alertTypeJailed =
     (Some (Error ''Invalid AlertType''), alertTypeJailed)"
proof -
  have a: "decodes ''alertTypeHalt'' '''' = (''alertTypeHalt'', None)"
    by (simp add: decodes_def)
  have b: "decodes ''alertTypeHalted'' '''' = (''alertTypeHalted'', None)"
    by (simp add: decodes_def)
  show ?thesis
    using a b
      UnmarshalYAML_accepts_closed_set
        [of "decodes ''alertTypeHalt''" "''alertTypeHalt''" alertTypeJailed]
      UnmarshalYAML_accepts_closed_set
        [of "decodes ''alertTypeHalted''" "''alertTypeHalted''" alertTypeJailed]
    by (simp add: alertTypeJailed_def alertTypeTombstoned_def alertTypeOutOfSync_def
        alertTypeBlockFetch_def alertTypeMissedRecentBlocks_def alertTypeGenericRPC_def
        alertTypeHalt_def alertTypeSlashingSLA_def)
qed

text \<open>
  C10: \<open>UnmarshalYAML\<close> is atomic on error. Whenever it returns an error, because the
  callback failed or because the string is not in the closed set, the receiver holds
  the value it held before the call.
\<close>

theorem UnmarshalYAML_error_keeps_receiver:
  assumes "fst (UnmarshalYAML unmarshal recv) \<noteq> None"
  shows "snd (UnmarshalYAML unmarshal recv) = recv"
proof (cases "unmarshal ''''")
  case (Pair s e)
  show ?thesis
  proof (cases e)
    case None
    with Pair assms show ?thesis
      by (simp add: UnmarshalYAML_decoded split: if_splits)
  next
    case (Some err)
    with Pair show ?thesis by (simp add: UnmarshalYAML_failed)
  qed
qed

theorem UnmarshalYAML_error_keeps_receiver_witness:
  "fst (UnmarshalYAML (decodes ''alertTypeHalted'') alertTypeJailed) \<noteq> None \<and>
   snd (UnmarshalYAML (decodes ''alertTypeHalted'') alertTypeJailed) = alertTypeJailed \<and>
   fst (UnmarshalYAML (failing (Error ''cannot unmarshal !!seq into string''))
          alertTypeJailed) \<noteq> None \<and>
   snd (UnmarshalYAML (failing (Error ''cannot unmarshal !!seq into string''))
          alertTypeJailed) = alertTypeJailed"
proof -
  have a: "fst (UnmarshalYAML (decodes ''alertTypeHalted'') alertTypeJailed) \<noteq> None"
    by (simp add: UnmarshalYAML_def decodes_def alertTypes_def alertTypeJailed_def
        alertTypeTombstoned_def alertTypeOutOfSync_def
        alertTypeBlockFetch_def alertTypeMissedRecentBlocks_def alertTypeGenericRPC_def
        alertTypeHalt_def alertTypeSlashingSLA_def)
  have b: "fst (UnmarshalYAML (failing (Error ''cannot unmarshal !!seq into string''))
                  alertTypeJailed) \<noteq> None"
    by (simp add: UnmarshalYAML_def failing_def)
  show ?thesis
    using a b UnmarshalYAML_error_keeps_receiver [OF a]
      UnmarshalYAML_error_keeps_receiver [OF b]
    by simp
qed

section \<open>\<open>AlertActive\<close> and the ignore list\<close>

lemma AlertActive_loop_no_nil:
  "None \<notin> set as \<Longrightarrow> AlertActive_loop as alert = Inr (Some alert \<notin> set as)"
  by (induction as alert rule: AlertActive_loop.induct) auto

text \<open>
  C7, as amended: for every \<open>AlertConfig\<close> whose \<open>IgnoreAlerts\<close> holds no \<open>nil\<close> pointer
  and every alert type, \<open>AlertActive\<close> returns \<open>false\<close> if the alert type is in
  \<open>IgnoreAlerts\<close> and \<open>true\<close> otherwise.
\<close>

theorem AlertActive_without_nil_entries:
  assumes "None \<notin> set (IgnoreAlerts cfg)"
  shows "AlertActive cfg alert = Inr (Some alert \<notin> set (IgnoreAlerts cfg))"
  using assms by (simp add: AlertActive_def AlertActive_loop_no_nil)

theorem AlertActive_without_nil_entries_witness:
  "None \<notin> set (IgnoreAlerts (AlertConfig exampleConfig)) \<and>
   AlertActive (AlertConfig exampleConfig) alertTypeHalt = Inr False \<and>
   AlertActive (AlertConfig exampleConfig) alertTypeJailed = Inr True"
proof -
  have a: "None \<notin> set (IgnoreAlerts (AlertConfig exampleConfig))"
    by (simp add: exampleConfig_def)
  show ?thesis
    using a AlertActive_without_nil_entries [OF a, of alertTypeHalt]
      AlertActive_without_nil_entries [OF a, of alertTypeJailed]
    by (simp add: exampleConfig_def alertTypeHalt_def alertTypeJailed_def)
qed

text \<open>
  An ignore list with a \<open>nil\<close> entry in front of the alert type: the alert type is in
  the list, and the call panics instead of returning \<open>false\<close>.
\<close>

theorem AlertActive_nil_entry_counterexample:
  "Some alertTypeJailed \<in> set (IgnoreAlerts \<lparr>IgnoreAlerts = [None, Some alertTypeJailed]\<rparr>) \<and>
   AlertActive \<lparr>IgnoreAlerts = [None, Some alertTypeJailed]\<rparr> alertTypeJailed
     = Inl NilPointerDereference"
  by (simp add: AlertActive_def)

section \<open>The defaulting pass\<close>

lemma if_update:
  "\<And>c d v. (if c then v\<lparr>SlashingPeriodUptimeWarningThreshold := d\<rparr> else v) =
     v\<lparr>SlashingPeriodUptimeWarningThreshold :=
         (if c then d else SlashingPeriodUptimeWarningThreshold v)\<rparr>"
  "\<And>c d v. (if c then v\<lparr>SlashingPeriodUptimeErrorThreshold := d\<rparr> else v) =
     v\<lparr>SlashingPeriodUptimeErrorThreshold :=
         (if c then d else SlashingPeriodUptimeErrorThreshold v)\<rparr>"
  "\<And>c e v. (if c then v\<lparr>RecentBlocksToCheck := e\<rparr> else v) =
     v\<lparr>RecentBlocksToCheck := (if c then e else RecentBlocksToCheck v)\<rparr>"
  "\<And>c e v. (if c then v\<lparr>NotifyEvery := e\<rparr> else v) =
     v\<lparr>NotifyEvery := (if c then e else NotifyEvery v)\<rparr>"
  "\<And>c e v. (if c then v\<lparr>RecentMissedBlocksNotifyThreshold := e\<rparr> else v) =
     v\<lparr>RecentMissedBlocksNotifyThreshold :=
         (if c then e else RecentMissedBlocksNotifyThreshold v)\<rparr>"
  "\<And>c g v. (if c then v\<lparr>MissedBlocksGreenTo := g\<rparr> else v) =
     v\<lparr>MissedBlocksGreenTo := (if c then g else MissedBlocksGreenTo v)\<rparr>"
  "\<And>c g v. (if c then v\<lparr>MissedBlocksYellowFrom := g\<rparr> else v) =
     v\<lparr>MissedBlocksYellowFrom := (if c then g else MissedBlocksYellowFrom v)\<rparr>"
  "\<And>c g v. (if c then v\<lparr>MissedBlocksYellowTo := g\<rparr> else v) =
     v\<lparr>MissedBlocksYellowTo := (if c then g else MissedBlocksYellowTo v)\<rparr>"
  "\<And>c g v. (if c then v\<lparr>MissedBlocksRedFrom := g\<rparr> else v) =
     v\<lparr>MissedBlocksRedFrom := (if c then g else MissedBlocksRedFrom v)\<rparr>"
  by simp_all

lemma validatorUnsetDefaults_closed:
  "validatorUnsetDefaults v =
     v\<lparr>SlashingPeriodUptimeWarningThreshold :=
         (if f64_eq_zero (SlashingPeriodUptimeWarningThreshold v)
          then defaultSlashingPeriodUptimeWarningThreshold
          else SlashingPeriodUptimeWarningThreshold v),
       SlashingPeriodUptimeErrorThreshold :=
         (if f64_eq_zero (SlashingPeriodUptimeErrorThreshold v)
          then defaultSlashingPeriodUptimeErrorThreshold
          else SlashingPeriodUptimeErrorThreshold v),
       RecentBlocksToCheck :=
         (if RecentBlocksToCheck v = 0 then defaultRecentBlocksToCheck
          else RecentBlocksToCheck v),
       NotifyEvery := (if NotifyEvery v = 0 then defaultNotifyEvery else NotifyEvery v),
       RecentMissedBlocksNotifyThreshold :=
         (if RecentMissedBlocksNotifyThreshold v = 0
          then defaultRecentMissedBlocksNotifyThreshold
          else RecentMissedBlocksNotifyThreshold v),
       MissedBlocksGreenTo :=
         (if MissedBlocksGreenTo v = None then Some 49 else MissedBlocksGreenTo v),
       MissedBlocksYellowFrom :=
         (if MissedBlocksYellowFrom v = None then Some 50 else MissedBlocksYellowFrom v),
       MissedBlocksYellowTo :=
         (if MissedBlocksYellowTo v = None then Some 99 else MissedBlocksYellowTo v),
       MissedBlocksRedFrom :=
         (if MissedBlocksRedFrom v = None then Some 100 else MissedBlocksRedFrom v)\<rparr>"
  unfolding validatorUnsetDefaults_def Let_def if_update
  by (simp split del: if_split cong: if_cong)

lemma defaults_nonzero:
  "\<not> f64_eq_zero defaultSlashingPeriodUptimeWarningThreshold"
  "\<not> f64_eq_zero defaultSlashingPeriodUptimeErrorThreshold"
  "defaultRecentBlocksToCheck \<noteq> 0" "defaultNotifyEvery \<noteq> 0"
  "defaultRecentMissedBlocksNotifyThreshold \<noteq> 0"
  by (simp_all add: f64_eq_zero_def defaultSlashingPeriodUptimeWarningThreshold_def
      defaultSlashingPeriodUptimeErrorThreshold_def defaultRecentBlocksToCheck_def
      defaultNotifyEvery_def defaultRecentMissedBlocksNotifyThreshold_def)

lemma thresholdsSet_validatorUnsetDefaults: "thresholdsSet (validatorUnsetDefaults v)"
  unfolding thresholdsSet_def validatorUnsetDefaults_closed
  by (simp add: defaults_nonzero)

lemma validatorUnsetDefaults_fixed:
  "thresholdsSet v \<Longrightarrow> validatorUnsetDefaults v = v"
  unfolding thresholdsSet_def validatorUnsetDefaults_closed
  by simp

lemma validatorUnsetDefaults_idem:
  "validatorUnsetDefaults (validatorUnsetDefaults v) = validatorUnsetDefaults v"
  by (rule validatorUnsetDefaults_fixed [OF thresholdsSet_validatorUnsetDefaults])

lemma loop_heap:
  "snd (getUnsetDefaults_loop ps h) p =
     (if Some p \<in> set (takeWhile (\<lambda>q. q \<noteq> None) ps)
      then validatorUnsetDefaults (h p) else h p)"
proof (induction ps arbitrary: h)
  case Nil
  show ?case by simp
next
  case (Cons q ps)
  show ?case
  proof (cases q)
    case None
    then show ?thesis by simp
  next
    case (Some a)
    then show ?thesis
      by (simp add: Cons.IH validatorUnsetDefaults_idem)
  qed
qed

lemma loop_outcome:
  "fst (getUnsetDefaults_loop ps h) =
     (if None \<in> set ps then Some NilPointerDereference else None)"
proof (induction ps arbitrary: h)
  case Nil
  show ?case by simp
next
  case (Cons q ps)
  show ?case by (cases q) (simp_all add: Cons.IH)
qed

text \<open>
  C9: \<open>getUnsetDefaults\<close> dereferences \<open>c.Notifications\<close> before any defaulting work.
  For every configuration whose \<open>Notifications\<close> is \<open>nil\<close> it panics with a nil-pointer
  dereference, and no validator has been given a default.
\<close>

theorem getUnsetDefaults_nil_Notifications:
  assumes "Notifications c = None"
  shows "getUnsetDefaults c h = (Some NilPointerDereference, h)"
  using assms by (simp add: getUnsetDefaults_def)

theorem getUnsetDefaults_nil_Notifications_witness:
  "Notifications (exampleConfig\<lparr>Notifications := None\<rparr>) = None \<and>
   getUnsetDefaults (exampleConfig\<lparr>Notifications := None\<rparr>) exampleHeap
     = (Some NilPointerDereference, exampleHeap)"
proof -
  have a: "Notifications (exampleConfig\<lparr>Notifications := None\<rparr>) = None" by simp
  show ?thesis using a getUnsetDefaults_nil_Notifications [OF a, of exampleHeap] by simp
qed

lemma option_default:
  "(if x = None then Some d else x) = (case x of None \<Rightarrow> Some d | Some y \<Rightarrow> Some y)"
  by (cases x) simp_all

lemma validatorUnsetDefaults_filledWhereUnset:
  "validatorUnsetDefaults v = filledWhereUnset v"
  unfolding validatorUnsetDefaults_closed filledWhereUnset_def option_default
    defaultSlashingPeriodUptimeWarningThreshold_def
    defaultSlashingPeriodUptimeErrorThreshold_def defaultRecentBlocksToCheck_def
    defaultNotifyEvery_def defaultRecentMissedBlocksNotifyThreshold_def
  by (rule refl)

lemma getUnsetDefaults_heap:
  "snd (getUnsetDefaults c h) p =
     (if Notifications c \<noteq> None \<and>
         Some p \<in> set (takeWhile (\<lambda>q. q \<noteq> None) (Validators c))
      then validatorUnsetDefaults (h p) else h p)"
  by (cases "Notifications c") (simp_all add: getUnsetDefaults_def loop_heap)

lemma getUnsetDefaults_outcome:
  "fst (getUnsetDefaults c h) =
     (if Notifications c = None \<or> None \<in> set (Validators c)
      then Some NilPointerDereference else None)"
  by (cases "Notifications c") (simp_all add: getUnsetDefaults_def loop_outcome)

lemma takeWhile_all:
  assumes "None \<notin> set ps"
  shows "takeWhile (\<lambda>q. q \<noteq> None) ps = ps"
proof -
  from assms have "\<forall>q\<in>set ps. q \<noteq> None" by (intro ballI notI) simp
  then show ?thesis by (simp only: takeWhile_eq_all_conv)
qed

lemma getUnsetDefaults_returned:
  assumes "fst (getUnsetDefaults c h) = None"
  shows "snd (getUnsetDefaults c h) p =
     (if Some p \<in> set (Validators c) then validatorUnsetDefaults (h p) else h p)"
proof -
  from assms have "Notifications c \<noteq> None" and "None \<notin> set (Validators c)"
    by (auto simp: getUnsetDefaults_outcome split: if_splits)
  then show ?thesis
    unfolding getUnsetDefaults_heap by (simp only: takeWhile_all simp_thms if_True)
qed

lemma getUnsetDefaults_heap_reached:
  assumes "Notifications c \<noteq> None"
    and "Some p \<in> set (takeWhile (\<lambda>q. q \<noteq> None) (Validators c))"
  shows "snd (getUnsetDefaults c h) p = validatorUnsetDefaults (h p)"
  using assms by (simp only: getUnsetDefaults_heap simp_thms if_True)

lemma getUnsetDefaults_heap_not_reached:
  assumes "\<not> (Notifications c \<noteq> None \<and>
    Some p \<in> set (takeWhile (\<lambda>q. q \<noteq> None) (Validators c)))"
  shows "snd (getUnsetDefaults c h) p = h p"
  using assms by (simp only: getUnsetDefaults_heap if_False)

lemma example_run: "fst (getUnsetDefaults exampleConfig exampleHeap) = None"
  by (simp add: getUnsetDefaults_def exampleConfig_def)

lemma example_members:
  "Some 3 \<in> set (Validators exampleConfig)" "Some 4 \<in> set (Validators exampleConfig)"
  "Some 5 \<notin> set (Validators exampleConfig)"
  by (simp_all add: exampleConfig_def)

lemma example_filled:
  "filledWhereUnset (exampleHeap 3) = defaultedValidator"
  "filledWhereUnset (exampleHeap 4) = setValidator"
  by (simp_all add: filledWhereUnset_def exampleHeap_def unsetValidator_def
      setValidator_def defaultedValidator_def f64_eq_zero_def)

text \<open>
  C1: \<open>getUnsetDefaults\<close> assigns a default only to a field that is unset. After the
  call, whether it returned or panicked, every validator of the store is either as it
  was or as \<open>filledWhereUnset\<close> describes: the five numeric thresholds hold 99.80, 98,
  20, 20 and 10 where they were zero, the four band boundaries hold 49, 50, 99 and 100
  where they were \<open>nil\<close>, every field that was set (a pointer to zero included) and
  every other field hold what they held. When the call returns, every validator of the
  configuration has been filled in this way; a validator that the configuration does
  not point to is never touched.
\<close>

theorem getUnsetDefaults_fills_only_unset:
  "(snd (getUnsetDefaults c h) p = h p \<or>
    snd (getUnsetDefaults c h) p = filledWhereUnset (h p)) \<and>
   (fst (getUnsetDefaults c h) = None \<and> Some p \<in> set (Validators c) \<longrightarrow>
      snd (getUnsetDefaults c h) p = filledWhereUnset (h p)) \<and>
   (Some p \<notin> set (Validators c) \<longrightarrow> snd (getUnsetDefaults c h) p = h p)"
proof (intro conjI impI)
  show "snd (getUnsetDefaults c h) p = h p \<or>
    snd (getUnsetDefaults c h) p = filledWhereUnset (h p)"
    by (simp add: getUnsetDefaults_heap validatorUnsetDefaults_filledWhereUnset)
next
  assume "fst (getUnsetDefaults c h) = None \<and> Some p \<in> set (Validators c)"
  then show "snd (getUnsetDefaults c h) p = filledWhereUnset (h p)"
    by (simp add: getUnsetDefaults_returned validatorUnsetDefaults_filledWhereUnset)
next
  assume "Some p \<notin> set (Validators c)"
  then have "Some p \<notin> set (takeWhile (\<lambda>q. q \<noteq> None) (Validators c))"
    by (auto dest: set_takeWhileD)
  then show "snd (getUnsetDefaults c h) p = h p"
    by (simp add: getUnsetDefaults_heap)
qed

theorem getUnsetDefaults_fills_only_unset_witness:
  "fst (getUnsetDefaults exampleConfig exampleHeap) = None \<and>
   Some 3 \<in> set (Validators exampleConfig) \<and>
   snd (getUnsetDefaults exampleConfig exampleHeap) 3 = defaultedValidator \<and>
   Some 4 \<in> set (Validators exampleConfig) \<and>
   snd (getUnsetDefaults exampleConfig exampleHeap) 4 = setValidator \<and>
   Some 5 \<notin> set (Validators exampleConfig) \<and>
   snd (getUnsetDefaults exampleConfig exampleHeap) 5 = exampleHeap 5"
  using example_run example_members example_filled
    getUnsetDefaults_fills_only_unset [of exampleConfig exampleHeap 3]
    getUnsetDefaults_fills_only_unset [of exampleConfig exampleHeap 4]
    getUnsetDefaults_fills_only_unset [of exampleConfig exampleHeap 5]
  by simp

lemma getUnsetDefaults_idem_heap:
  "snd (getUnsetDefaults c (snd (getUnsetDefaults c h))) = snd (getUnsetDefaults c h)"
proof (rule ext)
  fix p
  let ?h1 = "snd (getUnsetDefaults c h)"
  show "snd (getUnsetDefaults c ?h1) p = ?h1 p"
  proof (cases "Notifications c \<noteq> None \<and>
      Some p \<in> set (takeWhile (\<lambda>q. q \<noteq> None) (Validators c))")
    case True
    note n = True [THEN conjunct1] and m = True [THEN conjunct2]
    have "snd (getUnsetDefaults c ?h1) p = validatorUnsetDefaults (?h1 p)"
      by (rule getUnsetDefaults_heap_reached [OF n m])
    moreover have "?h1 p = validatorUnsetDefaults (h p)"
      by (rule getUnsetDefaults_heap_reached [OF n m])
    ultimately show ?thesis by (simp only: validatorUnsetDefaults_idem)
  next
    case False
    then show ?thesis by (rule getUnsetDefaults_heap_not_reached)
  qed
qed

lemma thresholdsSet_thresholds:
  "thresholds v = thresholds w \<Longrightarrow> thresholdsSet v = thresholdsSet w"
  by (simp add: thresholds_def thresholdsSet_def)

lemma getUnsetDefaults_sets_thresholds:
  assumes "fst (getUnsetDefaults c h) = None" and "Some p \<in> set (Validators c)"
  shows "thresholdsSet (snd (getUnsetDefaults c h) p)"
  using assms by (simp add: getUnsetDefaults_returned thresholdsSet_validatorUnsetDefaults)

lemma getUnsetDefaults_nothing_to_fill:
  assumes "\<forall>p. Some p \<in> set (Validators c) \<longrightarrow> thresholdsSet (h p)"
  shows "snd (getUnsetDefaults c h) = h"
proof (rule ext)
  fix p
  show "snd (getUnsetDefaults c h) p = h p"
  proof (cases "Notifications c \<noteq> None \<and>
      Some p \<in> set (takeWhile (\<lambda>q. q \<noteq> None) (Validators c))")
    case True
    note n = True [THEN conjunct1] and m = True [THEN conjunct2]
    from m have "Some p \<in> set (Validators c)" by (rule set_takeWhileD [THEN conjunct1])
    with assms have "validatorUnsetDefaults (h p) = h p"
      by (simp add: validatorUnsetDefaults_fixed)
    moreover have "snd (getUnsetDefaults c h) p = validatorUnsetDefaults (h p)"
      by (rule getUnsetDefaults_heap_reached [OF n m])
    ultimately show ?thesis by simp
  next
    case False
    then show ?thesis by (rule getUnsetDefaults_heap_not_reached)
  qed
qed

lemma reload_thresholdsSet:
  assumes run: "fst (getUnsetDefaults c h) = None"
    and same: "effectiveThresholds c' h' = effectiveThresholds c (snd (getUnsetDefaults c h))"
    and p: "Some p \<in> set (Validators c')"
  shows "thresholdsSet (h' p)"
proof -
  let ?h1 = "snd (getUnsetDefaults c h)"
  from p have "map_option (\<lambda>p. thresholds (h' p)) (Some p) \<in> set (effectiveThresholds c' h')"
    unfolding effectiveThresholds_def set_map by (rule imageI)
  with same have "Some (thresholds (h' p)) \<in> set (effectiveThresholds c ?h1)" by simp
  then have "Some (thresholds (h' p)) \<in>
      map_option (\<lambda>p. thresholds (?h1 p)) ` set (Validators c)"
    unfolding effectiveThresholds_def set_map .
  then obtain q where q: "q \<in> set (Validators c)"
    and eq: "Some (thresholds (h' p)) = map_option (\<lambda>p. thresholds (?h1 p)) q"
    by (rule imageE)
  from eq obtain a where a: "q = Some a" and t: "thresholds (?h1 a) = thresholds (h' p)"
    by (cases q) simp_all
  from run q a have "thresholdsSet (?h1 a)" by (simp add: getUnsetDefaults_sets_thresholds)
  with t show ?thesis by (simp add: thresholdsSet_thresholds [of "?h1 a" "h' p"])
qed

lemma example_defaulted:
  "snd (getUnsetDefaults exampleConfig exampleHeap) 3 = defaultedValidator"
  "snd (getUnsetDefaults exampleConfig exampleHeap) 4 = setValidator"
  using example_run example_members example_filled
  by (simp_all add: getUnsetDefaults_returned validatorUnsetDefaults_filledWhereUnset)

lemma example_reloaded:
  "effectiveThresholds reloadedConfig reloadedHeap =
     effectiveThresholds exampleConfig (snd (getUnsetDefaults exampleConfig exampleHeap))"
proof -
  have "Validators exampleConfig = [Some 3, Some 4]"
    and "Validators reloadedConfig = [Some 7, Some 8]"
    by (simp_all add: exampleConfig_def reloadedConfig_def)
  moreover have "reloadedHeap 7 = defaultedValidator" and "reloadedHeap 8 = setValidator"
    by (simp_all add: reloadedHeap_def)
  ultimately show ?thesis
    by (simp add: effectiveThresholds_def example_defaulted)
qed

text \<open>
  C3: defaulting is idempotent. A second call of \<open>getUnsetDefaults\<close> gives the outcome
  and the store of the first one. When the call returns, the nine thresholds of every
  validator of the configuration are set (not zero, not \<open>nil\<close>), so nothing is left to
  fill; and for a configuration read back after the save, that is one whose validators
  carry the same thresholds in the same order, defaulting again leaves the effective
  thresholds identical.
\<close>

theorem getUnsetDefaults_idempotent:
  "getUnsetDefaults c (snd (getUnsetDefaults c h)) = getUnsetDefaults c h \<and>
   (fst (getUnsetDefaults c h) = None \<and> Some p \<in> set (Validators c) \<longrightarrow>
      thresholdsSet (snd (getUnsetDefaults c h) p)) \<and>
   (fst (getUnsetDefaults c h) = None \<and>
    effectiveThresholds c' h' = effectiveThresholds c (snd (getUnsetDefaults c h)) \<longrightarrow>
      effectiveThresholds c' (snd (getUnsetDefaults c' h')) =
        effectiveThresholds c (snd (getUnsetDefaults c h)))"
proof (intro conjI impI)
  show "getUnsetDefaults c (snd (getUnsetDefaults c h)) = getUnsetDefaults c h"
    by (rule prod_eqI) (simp_all only: getUnsetDefaults_outcome getUnsetDefaults_idem_heap)
next
  assume "fst (getUnsetDefaults c h) = None \<and> Some p \<in> set (Validators c)"
  then show "thresholdsSet (snd (getUnsetDefaults c h) p)"
    by (simp add: getUnsetDefaults_sets_thresholds)
next
  assume a: "fst (getUnsetDefaults c h) = None \<and>
    effectiveThresholds c' h' = effectiveThresholds c (snd (getUnsetDefaults c h))"
  then have "\<forall>p. Some p \<in> set (Validators c') \<longrightarrow> thresholdsSet (h' p)"
    using reload_thresholdsSet [of c h c' h'] by blast
  then have "snd (getUnsetDefaults c' h') = h'" by (rule getUnsetDefaults_nothing_to_fill)
  with a show "effectiveThresholds c' (snd (getUnsetDefaults c' h')) =
        effectiveThresholds c (snd (getUnsetDefaults c h))" by simp
qed

theorem getUnsetDefaults_idempotent_witness:
  "getUnsetDefaults exampleConfig (snd (getUnsetDefaults exampleConfig exampleHeap)) =
     getUnsetDefaults exampleConfig exampleHeap \<and>
   fst (getUnsetDefaults exampleConfig exampleHeap) = None \<and>
   Some 3 \<in> set (Validators exampleConfig) \<and>
   thresholdsSet (snd (getUnsetDefaults exampleConfig exampleHeap) 3) \<and>
   effectiveThresholds reloadedConfig reloadedHeap =
     effectiveThresholds exampleConfig (snd (getUnsetDefaults exampleConfig exampleHeap)) \<and>
   effectiveThresholds reloadedConfig (snd (getUnsetDefaults reloadedConfig reloadedHeap)) =
     effectiveThresholds exampleConfig (snd (getUnsetDefaults exampleConfig exampleHeap))"
  using example_run example_members(1) example_reloaded
    getUnsetDefaults_idempotent
      [of exampleConfig exampleHeap 3 reloadedConfig reloadedHeap]
  by simp

section \<open>The default bands\<close>

lemma default_bands_fields:
  assumes "MissedBlocksGreenTo v = None" and "MissedBlocksYellowFrom v = None"
    and "MissedBlocksYellowTo v = None" and "MissedBlocksRedFrom v = None"
    and "RecentBlocksToCheck v = 0"
  shows "MissedBlocksGreenTo (validatorUnsetDefaults v) = Some 49"
    and "MissedBlocksYellowFrom (validatorUnsetDefaults v) = Some 50"
    and "MissedBlocksYellowTo (validatorUnsetDefaults v) = Some 99"
    and "MissedBlocksRedFrom (validatorUnsetDefaults v) = Some 100"
    and "RecentBlocksToCheck (validatorUnsetDefaults v) = 20"
  using assms
  by (simp_all add: validatorUnsetDefaults_filledWhereUnset filledWhereUnset_def)

lemma default_bands_hold:
  assumes g: "MissedBlocksGreenTo w = Some 49" and yf: "MissedBlocksYellowFrom w = Some 50"
    and yt: "MissedBlocksYellowTo w = Some 99" and r: "MissedBlocksRedFrom w = Some 100"
    and n: "RecentBlocksToCheck w = 20"
  shows "bandsMonotonic w"
    and "\<forall>n. 0 \<le> sint n \<and> sint n \<le> sint (RecentBlocksToCheck w) \<longrightarrow> bandCount w n = 1"
proof -
  show "bandsMonotonic w"
    by (simp add: bandsMonotonic_def g yf yt r)
  show "\<forall>n. 0 \<le> sint n \<and> sint n \<le> sint (RecentBlocksToCheck w) \<longrightarrow> bandCount w n = 1"
    by (simp add: bandCount_def inGreenBand_def inYellowBand_def inRedBand_def g yf yt r n)
qed

text \<open>
  C4: for every validator whose four band boundaries and whose window size are unset,
  a call of \<open>getUnsetDefaults\<close> that returns leaves the boundaries 49, 50, 99 and 100
  and the window size 20; these boundaries are monotonic
  (\<open>GreenTo < YellowFrom \<le> YellowTo < RedFrom\<close>), and every count from 0 to the window
  size lies in exactly one band.
\<close>

theorem default_bands_invariant:
  assumes "fst (getUnsetDefaults c h) = None" and "Some p \<in> set (Validators c)"
    and "MissedBlocksGreenTo (h p) = None" and "MissedBlocksYellowFrom (h p) = None"
    and "MissedBlocksYellowTo (h p) = None" and "MissedBlocksRedFrom (h p) = None"
    and "RecentBlocksToCheck (h p) = 0"
  shows "MissedBlocksGreenTo (snd (getUnsetDefaults c h) p) = Some 49 \<and>
     MissedBlocksYellowFrom (snd (getUnsetDefaults c h) p) = Some 50 \<and>
     MissedBlocksYellowTo (snd (getUnsetDefaults c h) p) = Some 99 \<and>
     MissedBlocksRedFrom (snd (getUnsetDefaults c h) p) = Some 100 \<and>
     RecentBlocksToCheck (snd (getUnsetDefaults c h) p) = 20 \<and>
     bandsMonotonic (snd (getUnsetDefaults c h) p) \<and>
     (\<forall>n. 0 \<le> sint n \<and> sint n \<le> sint (RecentBlocksToCheck (snd (getUnsetDefaults c h) p))
        \<longrightarrow> bandCount (snd (getUnsetDefaults c h) p) n = 1)"
proof -
  from assms(1,2) have eq: "snd (getUnsetDefaults c h) p = validatorUnsetDefaults (h p)"
    by (simp add: getUnsetDefaults_returned)
  note f = default_bands_fields [OF assms(3-7)]
  show ?thesis
    unfolding eq using f default_bands_hold [OF f] by simp
qed

theorem default_bands_invariant_witness:
  "fst (getUnsetDefaults exampleConfig exampleHeap) = None \<and>
   Some 3 \<in> set (Validators exampleConfig) \<and>
   MissedBlocksGreenTo (exampleHeap 3) = None \<and>
   MissedBlocksYellowFrom (exampleHeap 3) = None \<and>
   MissedBlocksYellowTo (exampleHeap 3) = None \<and>
   MissedBlocksRedFrom (exampleHeap 3) = None \<and>
   RecentBlocksToCheck (exampleHeap 3) = 0 \<and>
   MissedBlocksGreenTo (snd (getUnsetDefaults exampleConfig exampleHeap) 3) = Some 49 \<and>
   MissedBlocksRedFrom (snd (getUnsetDefaults exampleConfig exampleHeap) 3) = Some 100 \<and>
   RecentBlocksToCheck (snd (getUnsetDefaults exampleConfig exampleHeap) 3) = 20 \<and>
   bandsMonotonic (snd (getUnsetDefaults exampleConfig exampleHeap) 3) \<and>
   bandCount (snd (getUnsetDefaults exampleConfig exampleHeap) 3) 0 = 1 \<and>
   bandCount (snd (getUnsetDefaults exampleConfig exampleHeap) 3) 20 = 1"
proof -
  have u: "MissedBlocksGreenTo (exampleHeap 3) = None"
    "MissedBlocksYellowFrom (exampleHeap 3) = None"
    "MissedBlocksYellowTo (exampleHeap 3) = None"
    "MissedBlocksRedFrom (exampleHeap 3) = None"
    "RecentBlocksToCheck (exampleHeap 3) = 0"
    by (simp_all add: exampleHeap_def unsetValidator_def)
  note t = default_bands_invariant [OF example_run example_members(1) u]
  from t have "bandCount (snd (getUnsetDefaults exampleConfig exampleHeap) 3) 0 = 1"
    and "bandCount (snd (getUnsetDefaults exampleConfig exampleHeap) 3) 20 = 1"
    by simp_all
  with t u example_run example_members(1) show ?thesis by simp
qed

section \<open>The order of the alert levels\<close>

lemma AlertLevel_values:
  "sint alertLevelNone = 0" "sint alertLevelWarning = 1" "sint alertLevelHigh = 2"
  "sint alertLevelCritical = 3"
  by (simp_all add: alertLevelNone_def alertLevelWarning_def alertLevelHigh_def
      alertLevelCritical_def)

lemma AlertLevel_greatest:
  assumes "ls \<noteq> []"
  shows "\<exists>m\<in>set ls. \<forall>l\<in>set ls. sint l \<le> sint m"
proof -
  let ?S = "sint ` set ls"
  from assms have fin: "finite ?S" and ne: "?S \<noteq> {}" by simp_all
  from Max_in [OF fin ne] obtain m where m: "m \<in> set ls" and eq: "Max ?S = sint m"
    by auto
  have "\<forall>l\<in>set ls. sint l \<le> sint m"
  proof
    fix l assume "l \<in> set ls"
    then have "sint l \<in> ?S" by (rule imageI)
    from Max_ge [OF fin this] eq show "sint l \<le> sint m" by simp
  qed
  with m show ?thesis by blast
qed

text \<open>
  C5: \<open>AlertLevel\<close> is an ordered enumeration, none < warning < high < critical,
  represented as 0 < 1 < 2 < 3. Every non-empty collection of levels has exactly one
  greatest element, its maximum, and the maximum of a collection in which critical
  occurs is critical.
\<close>

theorem AlertLevel_ordered_maximum:
  assumes "ls \<noteq> []"
    and "set ls \<subseteq> {alertLevelNone, alertLevelWarning, alertLevelHigh, alertLevelCritical}"
  shows "sint alertLevelNone = 0 \<and> sint alertLevelWarning = 1 \<and>
     sint alertLevelHigh = 2 \<and> sint alertLevelCritical = 3 \<and>
     sint alertLevelNone < sint alertLevelWarning \<and>
     sint alertLevelWarning < sint alertLevelHigh \<and>
     sint alertLevelHigh < sint alertLevelCritical \<and>
     (\<exists>m\<in>set ls. (\<forall>l\<in>set ls. sint l \<le> sint m) \<and>
        (\<forall>m'\<in>set ls. (\<forall>l\<in>set ls. sint l \<le> sint m') \<longrightarrow> m' = m) \<and>
        (alertLevelCritical \<in> set ls \<longrightarrow> m = alertLevelCritical))"
proof -
  from AlertLevel_greatest [OF assms(1)] obtain m
    where m: "m \<in> set ls" and top: "\<forall>l\<in>set ls. sint l \<le> sint m" by blast
  have uniq: "\<forall>m'\<in>set ls. (\<forall>l\<in>set ls. sint l \<le> sint m') \<longrightarrow> m' = m"
  proof (intro ballI impI)
    fix m' assume m': "m' \<in> set ls" and top': "\<forall>l\<in>set ls. sint l \<le> sint m'"
    from m' top have "sint m' \<le> sint m" by blast
    moreover from m top' have "sint m \<le> sint m'" by blast
    ultimately have "sint m' = sint m" by simp
    then show "m' = m" by (rule signed_word_eqI)
  qed
  have crit: "alertLevelCritical \<in> set ls \<longrightarrow> m = alertLevelCritical"
  proof
    assume c: "alertLevelCritical \<in> set ls"
    with top have "sint alertLevelCritical \<le> sint m" by blast
    moreover from m assms(2) have "sint m \<le> 3"
      by (auto simp: AlertLevel_values)
    ultimately have "sint m = sint alertLevelCritical" by (simp add: AlertLevel_values)
    then show "m = alertLevelCritical" by (rule signed_word_eqI)
  qed
  let ?E = "\<exists>m\<in>set ls. (\<forall>l\<in>set ls. sint l \<le> sint m) \<and>
        (\<forall>m'\<in>set ls. (\<forall>l\<in>set ls. sint l \<le> sint m') \<longrightarrow> m' = m) \<and>
        (alertLevelCritical \<in> set ls \<longrightarrow> m = alertLevelCritical)"
  have ex: ?E by (rule bexI [OF _ m]) (intro conjI top uniq crit)
  show ?thesis
  proof (intro conjI)
    show ?E by (rule ex)
  qed (simp_all add: AlertLevel_values)
qed

theorem AlertLevel_ordered_maximum_witness:
  "[alertLevelWarning, alertLevelCritical, alertLevelNone] \<noteq> [] \<and>
   set [alertLevelWarning, alertLevelCritical, alertLevelNone] \<subseteq>
     {alertLevelNone, alertLevelWarning, alertLevelHigh, alertLevelCritical} \<and>
   sint alertLevelNone < sint alertLevelWarning \<and>
   sint alertLevelWarning < sint alertLevelHigh \<and>
   sint alertLevelHigh < sint alertLevelCritical \<and>
   alertLevelCritical \<in> set [alertLevelWarning, alertLevelCritical, alertLevelNone] \<and>
   (\<exists>m\<in>set [alertLevelWarning, alertLevelCritical, alertLevelNone].
      sint alertLevelWarning \<le> sint m \<and> sint alertLevelCritical \<le> sint m \<and>
      sint alertLevelNone \<le> sint m \<and> m = alertLevelCritical)"
proof -
  have a: "[alertLevelWarning, alertLevelCritical, alertLevelNone] \<noteq> []" by simp
  have b: "set [alertLevelWarning, alertLevelCritical, alertLevelNone] \<subseteq>
     {alertLevelNone, alertLevelWarning, alertLevelHigh, alertLevelCritical}" by simp
  from AlertLevel_ordered_maximum [OF a b] a b show ?thesis by auto
qed
section \<open>Saving the configuration\<close>

text \<open>
  When \<open>yaml.Marshal\<close> fails, \<open>saveConfig\<close> logs the error and goes on to
  \<open>os.WriteFile\<close> with the bytes it was given, whatever the file held.
\<close>

lemma saveConfig_marshal_error_still_writes:
  assumes "Marshal config = (yamlBytes, Some e)"
  shows "saveConfig Marshal WriteFile_succeeds configFile config fs =
     (fs(configFile \<mapsto> yamlBytes),
      [MutexLocked, MarshalErrorLogged e, WriteFileCalled configFile yamlBytes,
       MutexUnlocked])"
  using assms by (simp add: saveConfig_def WriteFile_succeeds_def)

lemma saveConfig_marshal_error_example:
  "saveConfig Marshal_fails WriteFile_succeeds ''./config.yaml''
       (exampleConfig, exampleHeap) [''./config.yaml'' \<mapsto> ''validators: []''] =
     ([''./config.yaml'' \<mapsto> ''''],
      [MutexLocked, MarshalErrorLogged (Error ''yaml: cannot marshal''),
       WriteFileCalled ''./config.yaml'' '''', MutexUnlocked])"
  by (simp add: saveConfig_def Marshal_fails_def WriteFile_succeeds_def)

text \<open>
  C6, as amended: \<open>saveConfig\<close> replaces the whole file with the serialization of the
  configuration, between the lock and the unlock of the mutex it is given. For every
  configuration that \<open>yaml.Marshal\<close> serializes without error, when \<open>os.WriteFile\<close>
  succeeds the file holds exactly the full serialized configuration, whatever it held
  before, no other file changes and nothing is logged.
\<close>

theorem saveConfig_replaces_whole_file:
  assumes "Marshal config = (yamlBytes, None)"
  shows "saveConfig Marshal WriteFile_succeeds configFile config fs =
     (fs(configFile \<mapsto> yamlBytes),
      [MutexLocked, WriteFileCalled configFile yamlBytes, MutexUnlocked])"
  using assms by (simp add: saveConfig_def WriteFile_succeeds_def)

theorem saveConfig_replaces_whole_file_witness:
  "Marshal_gives ''validators: []'' (exampleConfig, exampleHeap) = (''validators: []'', None) \<and>
   saveConfig (Marshal_gives ''validators: []'') WriteFile_succeeds ''./config.yaml''
       (exampleConfig, exampleHeap) [''./config.yaml'' \<mapsto> ''validators: [a]''] =
     ([''./config.yaml'' \<mapsto> ''validators: []''],
      [MutexLocked, WriteFileCalled ''./config.yaml'' ''validators: []'', MutexUnlocked])"
proof -
  have a: "Marshal_gives ''validators: []'' (exampleConfig, exampleHeap) =
      (''validators: []'', None)"
    by (simp add: Marshal_gives_def)
  show ?thesis
    using a saveConfig_replaces_whole_file
      [of "Marshal_gives ''validators: []''" "(exampleConfig, exampleHeap)"
          "''validators: []''" "''./config.yaml''"
          "[''./config.yaml'' \<mapsto> ''validators: [a]'']"]
    by simp
qed

text \<open>
  A write that fails after five bytes: the serialization succeeded, and the file holds
  neither the full serialized configuration nor what it held before the call.
\<close>

theorem saveConfig_failed_write_counterexample:
  "snd (Marshal_gives ''validators: []'' (exampleConfig, exampleHeap)) = None \<and>
   fst (saveConfig (Marshal_gives ''validators: []'')
          (WriteFile_fails_after 5 (Error ''no space left on device'')) ''./config.yaml''
          (exampleConfig, exampleHeap) [''./config.yaml'' \<mapsto> ''validators: [a]''])
       ''./config.yaml'' = Some ''valid'' \<and>
   ''valid'' \<noteq> ''validators: []'' \<and> ''valid'' \<noteq> ''validators: [a]''"
  by (simp add: saveConfig_def Marshal_gives_def WriteFile_fails_after_def)

section \<open>Sentry alerts and the thresholds\<close>







end
